theory Spec2Isabelle
  imports Main
begin

section \<open>Values, dictionaries and exceptions\<close>

text \<open>
  The claims of a token are a Python dict from strings to JSON values. A dict keeps its
  keys in insertion order and \<open>update\<close> overwrites a key in place, so it is an association
  list with \<open>dict_set\<close>; \<open>d[k]\<close> on a missing key raises \<open>KeyError\<close>.
\<close>

datatype jval = JStr string | JNum int | JNull

type_synonym claims = "(string \<times> jval) list"

fun dict_set :: "claims \<Rightarrow> string \<Rightarrow> jval \<Rightarrow> claims" where
  "dict_set [] k v = [(k, v)]"
| "dict_set ((k', v') # d) k v = (if k' = k then (k, v) # d else (k', v') # dict_set d k v)"

fun dict_update :: "claims \<Rightarrow> claims \<Rightarrow> claims" where
  "dict_update d [] = d"
| "dict_update d ((k, v) # kvs) = dict_update (dict_set d k v) kvs"

text \<open>
  The message constants of \<open>src/conf/messages.py\<close> (not among the sources) stay symbolic.
  \<open>Str e\<close> is Python's \<open>str(e)\<close> of an exception \<open>e\<close>.
\<close>

datatype message =
  ACCOUNT_EXIST | EMAIL_NOT_FOUND | EMAIL_NOT_CONFIRMED | INCORRECT_PASSWORD
| INVALID_REFRESH_TOKEN | USER_NOT_FOUND

datatype detail = Message message | Text string | Str exn
and exn =
    HTTPException nat detail
  | JWTError
  | KeyError string
  | AttributeError string
  | ValueError
  | TypeError
  | RequestValidationError

definition getitem :: "claims \<Rightarrow> string \<Rightarrow> exn + jval" where
  "getitem d k = (case map_of d k of None \<Rightarrow> Inl (KeyError k) | Some v \<Rightarrow> Inr v)"

text \<open>\<open>try: r except JWTError: raise h\<close>: only a \<open>JWTError\<close> is caught.\<close>

definition except_JWTError :: "exn + 'a \<Rightarrow> exn \<Rightarrow> exn + 'a" where
  "except_JWTError r h = (case r of Inl JWTError \<Rightarrow> Inl h | _ \<Rightarrow> r)"

text \<open>Python's \<open>str\<close> of a JSON value (the cache key of a subject).\<close>

fun digits :: "nat \<Rightarrow> string" where
  "digits n = (if n < 10 then [char_of (48 + n)]
               else digits (n div 10) @ [char_of (48 + n mod 10)])"

fun py_str :: "jval \<Rightarrow> string" where
  "py_str (JStr s) = s"
| "py_str (JNum i) = (if i < 0 then CHR ''-'' # digits (nat (- i)) else digits (nat i))"
| "py_str JNull = ''None''"

text \<open>
  Python's \<open>int\<close> of a JSON value. Of a string it takes the decimal numeral: blanks
  around it are dropped, a sign may lead, single underscores may stand between digits,
  more than 4300 digits are refused; anything else raises \<open>ValueError\<close>. Of \<open>None\<close>
  it raises \<open>TypeError\<close>. Strings are ASCII.
\<close>

definition is_space :: "char \<Rightarrow> bool" where
  "is_space ch = ((of_char ch :: nat) \<in> set [9, 10, 11, 12, 13, 28, 29, 30, 31, 32])"

definition is_digit :: "char \<Rightarrow> bool" where
  "is_digit ch = (48 \<le> (of_char ch :: nat) \<and> (of_char ch :: nat) \<le> 57)"

definition digit_val :: "char \<Rightarrow> int" where
  "digit_val ch = int (of_char ch) - 48"

fun parse_digits :: "int \<Rightarrow> string \<Rightarrow> int option" where
  "parse_digits acc [] = Some acc"
| "parse_digits acc [ch] = (if is_digit ch then Some (10 * acc + digit_val ch) else None)"
| "parse_digits acc (ch # ch' # rest) =
     (if is_digit ch then parse_digits (10 * acc + digit_val ch) (ch' # rest)
      else if ch = CHR ''_'' \<and> is_digit ch' then parse_digits (10 * acc + digit_val ch') rest
      else None)"

definition int_of_str :: "string \<Rightarrow> int option" where
  "int_of_str s =
     (let s = rev (dropWhile is_space (rev (dropWhile is_space s)));
          (sign, body) = (case s of
                            [] \<Rightarrow> (1, [])
                          | ch # rest \<Rightarrow>
                              if ch = CHR ''-'' then (- 1, rest)
                              else if ch = CHR ''+'' then (1, rest)
                              else (1, s))
      in case body of
           [] \<Rightarrow> None
         | ch # rest \<Rightarrow>
             if is_digit ch then
               (if 4300 < length (filter is_digit body) then None
                else map_option (\<lambda>n. sign * n) (parse_digits (digit_val ch) rest))
             else None)"

fun py_int :: "jval \<Rightarrow> exn + int" where
  "py_int (JNum n) = Inr n"
| "py_int (JStr s) = (case int_of_str s of None \<Rightarrow> Inl ValueError | Some n \<Rightarrow> Inr n)"
| "py_int JNull = Inl TypeError"

section \<open>Signed tokens (the library behind \<open>jwt.encode\<close> and \<open>jwt.decode\<close>)\<close>

text \<open>
  A token string is either the encoding of a claims dict signed with a key, or any other
  string. Two encodings are the same string exactly when key and claims agree. Times are
  whole seconds since the epoch, as the library writes \<open>iat\<close>, \<open>nbf\<close> and \<open>exp\<close>.
  The values of a claims dict are strings, integers and \<open>None\<close>.

  Decoding raises \<open>JWTError\<close> for a string that is no token and for a signature made
  with another key. Then it validates the registered claims that are present, in this
  order, with the library's defaults (no audience, issuer, subject or access token is
  passed, no leeway): \<open>iat\<close> must convert with \<open>int\<close>; \<open>nbf\<close> must convert and not lie
  after the clock; \<open>exp\<close> must convert and not lie before the clock; \<open>aud\<close> never
  matches the absent audience; \<open>sub\<close> and \<open>jti\<close> must be strings; \<open>at_hash\<close> cannot be
  compared. A failed validation is a \<open>JWTError\<close>; the library catches only the
  \<open>ValueError\<close> of \<open>int\<close>, so the \<open>TypeError\<close> of \<open>int(None)\<close> leaves it as it is.
\<close>

datatype token = JWT string claims | Opaque string

definition jwt_encode :: "claims \<Rightarrow> string \<Rightarrow> token" where
  "jwt_encode to_encode key = JWT key to_encode"

text \<open>\<open>try: int(v) except ValueError: raise JWTClaimsError\<close>.\<close>

definition claim_int :: "jval \<Rightarrow> exn + int" where
  "claim_int v = (case py_int v of Inl ValueError \<Rightarrow> Inl JWTError | r \<Rightarrow> r)"

definition validate_iat :: "claims \<Rightarrow> exn + unit" where
  "validate_iat c = (case map_of c ''iat'' of
       None \<Rightarrow> Inr ()
     | Some v \<Rightarrow> (case claim_int v of Inl e \<Rightarrow> Inl e | Inr _ \<Rightarrow> Inr ()))"

definition validate_nbf :: "claims \<Rightarrow> int \<Rightarrow> exn + unit" where
  "validate_nbf c now = (case map_of c ''nbf'' of
       None \<Rightarrow> Inr ()
     | Some v \<Rightarrow>
         (case claim_int v of
            Inl e \<Rightarrow> Inl e
          | Inr nbf \<Rightarrow> if now < nbf then Inl JWTError else Inr ()))"

definition validate_exp :: "claims \<Rightarrow> int \<Rightarrow> exn + unit" where
  "validate_exp c now = (case map_of c ''exp'' of
       None \<Rightarrow> Inr ()
     | Some v \<Rightarrow>
         (case claim_int v of
            Inl e \<Rightarrow> Inl e
          | Inr exp \<Rightarrow> if exp < now then Inl JWTError else Inr ()))"

definition validate_aud :: "claims \<Rightarrow> exn + unit" where
  "validate_aud c = (case map_of c ''aud'' of None \<Rightarrow> Inr () | Some _ \<Rightarrow> Inl JWTError)"

definition validate_sub :: "claims \<Rightarrow> exn + unit" where
  "validate_sub c = (case map_of c ''sub'' of
       None \<Rightarrow> Inr ()
     | Some (JStr _) \<Rightarrow> Inr ()
     | Some _ \<Rightarrow> Inl JWTError)"

definition validate_jti :: "claims \<Rightarrow> exn + unit" where
  "validate_jti c = (case map_of c ''jti'' of
       None \<Rightarrow> Inr ()
     | Some (JStr _) \<Rightarrow> Inr ()
     | Some _ \<Rightarrow> Inl JWTError)"

definition validate_at_hash :: "claims \<Rightarrow> exn + unit" where
  "validate_at_hash c =
     (case map_of c ''at_hash'' of None \<Rightarrow> Inr () | Some _ \<Rightarrow> Inl JWTError)"

text \<open>One validation after the other; the first exception ends the sequence.\<close>

definition and_then :: "exn + unit \<Rightarrow> exn + unit \<Rightarrow> exn + unit" where
  "and_then r next_one = (case r of Inl e \<Rightarrow> Inl e | Inr _ \<Rightarrow> next_one)"

definition validate_claims :: "claims \<Rightarrow> int \<Rightarrow> exn + unit" where
  "validate_claims c now =
     and_then (validate_iat c)
    (and_then (validate_nbf c now)
    (and_then (validate_exp c now)
    (and_then (validate_aud c)
    (and_then (validate_sub c)
    (and_then (validate_jti c)
              (validate_at_hash c))))))"

definition jwt_decode :: "token \<Rightarrow> string \<Rightarrow> int \<Rightarrow> exn + claims" where
  "jwt_decode t key now = (case t of
       Opaque _ \<Rightarrow> Inl JWTError
     | JWT k c \<Rightarrow>
         if k \<noteq> key then Inl JWTError
         else (case validate_claims c now of Inl e \<Rightarrow> Inl e | Inr _ \<Rightarrow> Inr c))"

section \<open>\<open>src/services/auth.py\<close>: class \<open>Auth\<close>\<close>

text \<open>
  \<open>SECRET_KEY\<close> comes from the configuration and is a parameter \<open>sk\<close>; the algorithm is
  the same for every call and is part of the key. \<open>now\<close> is \<open>datetime.utcnow()\<close> in
  seconds; \<open>expires_delta\<close> is a number of seconds.
\<close>

definition create_access_token :: "string \<Rightarrow> claims \<Rightarrow> int option \<Rightarrow> int \<Rightarrow> token" where
  "create_access_token sk data expires_delta now =
     (let to_encode = data;
          expire = (case expires_delta of
                      Some d \<Rightarrow> if d \<noteq> 0 then now + d else now + 15 * 60
                    | None \<Rightarrow> now + 15 * 60);
          to_encode = dict_update to_encode
            [(''iat'', JNum now), (''exp'', JNum expire), (''scope'', JStr ''access_token'')]
      in jwt_encode to_encode sk)"

definition create_refresh_token :: "string \<Rightarrow> claims \<Rightarrow> int option \<Rightarrow> int \<Rightarrow> token" where
  "create_refresh_token sk data expires_delta now =
     (let to_encode = data;
          expire = (case expires_delta of
                      Some d \<Rightarrow> if d \<noteq> 0 then now + d else now + 7 * 24 * 60 * 60
                    | None \<Rightarrow> now + 7 * 24 * 60 * 60);
          to_encode = dict_update to_encode
            [(''iat'', JNum now), (''exp'', JNum expire), (''scope'', JStr ''refresh_token'')]
      in jwt_encode to_encode sk)"

definition decode_refresh_token :: "string \<Rightarrow> token \<Rightarrow> int \<Rightarrow> exn + jval" where
  "decode_refresh_token sk token now =
     except_JWTError
       (case jwt_decode token sk now of
          Inl e \<Rightarrow> Inl e
        | Inr payload \<Rightarrow>
            (case getitem payload ''score'' of
               Inl e \<Rightarrow> Inl e
             | Inr s \<Rightarrow>
                 if s = JStr ''refresh_token'' then getitem payload ''sub''
                 else Inl (HTTPException 401 (Text ''Invalid scope for requested token''))))
       (HTTPException 401 (Text ''Could not validate credentials''))"

text \<open>The 401 of \<open>get_current_user\<close>; its \<open>WWW-Authenticate\<close> header is not part of the value.\<close>

definition credentials_exception :: exn where
  "credentials_exception = HTTPException 401 (Text ''Could not validate credentials'')"

text \<open>The \<open>try\<close> block of \<open>get_current_user\<close> (lines 122 to 132): from the token to the email.\<close>

definition get_current_user_email :: "string \<Rightarrow> token \<Rightarrow> int \<Rightarrow> exn + jval" where
  "get_current_user_email sk token now =
     except_JWTError
       (case jwt_decode token sk now of
          Inl e \<Rightarrow> Inl e
        | Inr payload \<Rightarrow>
            (case getitem payload ''scope'' of
               Inl e \<Rightarrow> Inl e
             | Inr s \<Rightarrow>
                 if s = JStr ''access_token'' then
                   (case getitem payload ''sub'' of
                      Inl e \<Rightarrow> Inl e
                    | Inr email \<Rightarrow> if email = JNull then Inl credentials_exception else Inr email)
                 else Inl credentials_exception))
       credentials_exception"

definition create_email_token :: "string \<Rightarrow> claims \<Rightarrow> int \<Rightarrow> token" where
  "create_email_token sk data now =
     (let to_encode = data;
          expire = now + 24 * 60 * 60;
          to_encode = dict_update to_encode [(''iat'', JNum now), (''exp'', JNum expire)]
      in jwt_encode to_encode sk)"

definition get_email_from_token :: "string \<Rightarrow> token \<Rightarrow> int \<Rightarrow> exn + jval" where
  "get_email_from_token sk token now =
     except_JWTError
       (case jwt_decode token sk now of
          Inl e \<Rightarrow> Inl e
        | Inr payload \<Rightarrow> getitem payload ''sub'')
       (HTTPException 401 (Text ''Could not validate credentials''))"

section \<open>The tables and the cache\<close>

text \<open>
  Modelled from the spec: the classes \<open>User\<close>, \<open>Contact\<close> and \<open>Role\<close> of
  \<open>src/entity/models.py\<close>, which is not among the sources. A user row has an id, a
  unique email, a display name, a password hash, a confirmation flag, a nullable refresh
  token, a nullable avatar and a role (regular, moderator, admin); a contact belongs to
  one user. Field \<open>f\<close> of \<open>User\<close> is \<open>u_f\<close>, of \<open>Contact\<close> \<open>c_f\<close>, of a request or
  response schema \<open>s_f\<close>.
\<close>

datatype Role = admin | moderator | regular

record User =
  u_id :: nat
  u_username :: string
  u_email :: string
  u_password :: string
  u_avatar :: "string option"
  u_refresh_token :: "token option"
  u_confirmed :: bool
  u_role :: Role

record Contact =
  c_id :: int
  c_name :: string
  c_lastname :: string
  c_email :: string
  c_phone :: string
  c_birthdate :: string
  c_others_info :: string
  c_completed :: bool
  c_user_id :: nat

record UserSchema =
  s_username :: string
  s_email :: string
  s_password :: string

record TokenSchema =
  s_access_token :: token
  s_refresh_token :: token
  s_token_type :: string

text \<open>The session: the rows of both tables, in table order.\<close>

record db =
  users :: "User list"
  contacts :: "Contact list"

text \<open>
  The key-value store behind \<open>Auth.cache\<close>: a key holds a pickled user and, once
  \<open>expire\<close> was called, its deadline: the store still serves the key at the deadline and
  drops it once the clock is past it. \<open>pickle.loads\<close> gives back what \<open>pickle.dumps\<close>
  was given, so the stored value is the user snapshot itself.
\<close>

type_synonym cache = "string \<Rightarrow> (User \<times> int option) option"

definition cache_get :: "cache \<Rightarrow> string \<Rightarrow> int \<Rightarrow> User option" where
  "cache_get c k now = (case c k of
       None \<Rightarrow> None
     | Some (v, None) \<Rightarrow> Some v
     | Some (v, Some deadline) \<Rightarrow> if deadline < now then None else Some v)"

definition cache_set :: "cache \<Rightarrow> string \<Rightarrow> User \<Rightarrow> cache" where
  "cache_set c k v = c(k \<mapsto> (v, None))"

definition cache_expire :: "cache \<Rightarrow> string \<Rightarrow> int \<Rightarrow> int \<Rightarrow> cache" where
  "cache_expire c k seconds now = (case cache_get c k now of
       None \<Rightarrow> c
     | Some v \<Rightarrow> c(k \<mapsto> (v, Some (now + seconds))))"

section \<open>\<open>src/repository/users.py\<close>\<close>

text \<open>\<open>select(User).filter_by(email=email)\<close>, then \<open>first()\<close>.\<close>

definition repository_users_get_user_by_email :: "jval \<Rightarrow> db \<Rightarrow> User option" where
  "repository_users_get_user_by_email email d =
     List.find (\<lambda>row. JStr (u_email row) = email) (users d)"

text \<open>
  An attribute assignment on a loaded row followed by \<open>commit\<close> updates the row with
  that primary key.
\<close>

definition commit_user :: "User \<Rightarrow> (User \<Rightarrow> User) \<Rightarrow> db \<Rightarrow> db" where
  "commit_user user f d =
     d\<lparr>users := map (\<lambda>row. if u_id row = u_id user then f row else row) (users d)\<rparr>"

text \<open>
  \<open>gravatar\<close> is the avatar service (\<open>None\<close> where it raises). The new row gets the
  next free id; its confirmation flag is false, its refresh token empty, its role regular.
\<close>

definition next_id :: "User list \<Rightarrow> nat" where
  "next_id rows = Suc (fold max (map u_id rows) 0)"

definition repository_users_create_user ::
  "(string \<Rightarrow> string option) \<Rightarrow> UserSchema \<Rightarrow> db \<Rightarrow> User \<times> db" where
  "repository_users_create_user gravatar body d =
     (let avatar = gravatar (s_email body);
          new_user = \<lparr>u_id = next_id (users d), u_username = s_username body,
                      u_email = s_email body, u_password = s_password body,
                      u_avatar = avatar, u_refresh_token = None, u_confirmed = False,
                      u_role = regular\<rparr>
      in (new_user, d\<lparr>users := users d @ [new_user]\<rparr>))"

definition repository_users_update_token :: "User \<Rightarrow> token option \<Rightarrow> db \<Rightarrow> db" where
  "repository_users_update_token user token d =
     commit_user user (\<lambda>row. row\<lparr>u_refresh_token := token\<rparr>) d"

definition repository_users_confirmed_email :: "jval \<Rightarrow> db \<Rightarrow> (exn + unit) \<times> db" where
  "repository_users_confirmed_email email d =
     (case repository_users_get_user_by_email email d of
        None \<Rightarrow> (Inl (AttributeError ''confirmed''), d)
      | Some user \<Rightarrow> (Inr (), commit_user user (\<lambda>row. row\<lparr>u_confirmed := True\<rparr>) d))"

section \<open>\<open>src/services/auth.py\<close>: \<open>Auth.get_current_user\<close>\<close>

definition get_current_user ::
  "string \<Rightarrow> token \<Rightarrow> int \<Rightarrow> cache \<Rightarrow> db \<Rightarrow> (exn + User) \<times> cache" where
  "get_current_user sk token now c d =
     (case get_current_user_email sk token now of
        Inl e \<Rightarrow> (Inl e, c)
      | Inr email \<Rightarrow>
          (let user_hash = py_str email in
           case cache_get c user_hash now of
             None \<Rightarrow>
               (case repository_users_get_user_by_email email d of
                  None \<Rightarrow> (Inl credentials_exception, c)
                | Some user \<Rightarrow>
                    (Inr user, cache_expire (cache_set c user_hash user) user_hash 300 now))
           | Some user \<Rightarrow> (Inr user, c)))"

section \<open>\<open>src/services/roles.py\<close>: class \<open>RoleAccess\<close>\<close>

definition RoleAccess_call :: "Role list \<Rightarrow> User \<Rightarrow> exn + unit" where
  "RoleAccess_call allowed_roles user =
     (if u_role user \<notin> set allowed_roles then Inl (HTTPException 403 (Text ''FORBIDDEN''))
      else Inr ())"

section \<open>\<open>src/routes/auth.py\<close>\<close>

text \<open>
  \<open>pwd_hash\<close> and \<open>pwd_verify\<close> are the password context's \<open>hash\<close> and \<open>verify\<close>.
  A route returns its response or exception, the session after it, and for \<open>signup\<close>
  the mails handed to the background tasks (address and user name).
\<close>

definition routes_auth_signup ::
  "(string \<Rightarrow> string) \<Rightarrow> (string \<Rightarrow> string option) \<Rightarrow> UserSchema \<Rightarrow> db
     \<Rightarrow> (exn + User) \<times> db \<times> (string \<times> string) list" where
  "routes_auth_signup pwd_hash gravatar body d =
     (case (case repository_users_get_user_by_email (JStr (s_email body)) d of
              Some exist_user \<Rightarrow> (Inl (HTTPException 409 (Message ACCOUNT_EXIST)), d, [])
            | None \<Rightarrow>
                (let body = body\<lparr>s_password := pwd_hash (s_password body)\<rparr>;
                     (new_user, d) = repository_users_create_user gravatar body d
                 in (Inr new_user, d, [(u_email new_user, u_username new_user)])))
      of (Inl e, d, bt) \<Rightarrow> (Inl (HTTPException 400 (Str e)), d, bt)
       | r \<Rightarrow> r)"

definition routes_auth_login ::
  "string \<Rightarrow> (string \<Rightarrow> string \<Rightarrow> bool) \<Rightarrow> string \<Rightarrow> string \<Rightarrow> int \<Rightarrow> db
     \<Rightarrow> (exn + TokenSchema) \<times> db" where
  "routes_auth_login sk pwd_verify body_username body_password now d =
     (case repository_users_get_user_by_email (JStr body_username) d of
        None \<Rightarrow> (Inl (HTTPException 401 (Message EMAIL_NOT_FOUND)), d)
      | Some user \<Rightarrow>
          if \<not> u_confirmed user then
            (Inl (HTTPException 401 (Message EMAIL_NOT_CONFIRMED)), d)
          else if \<not> pwd_verify body_password (u_password user) then
            (Inl (HTTPException 401 (Message INCORRECT_PASSWORD)), d)
          else
            (let access_token =
                   create_access_token sk [(''sub'', JStr (u_email user))] None now;
                 refresh_token =
                   create_refresh_token sk [(''sub'', JStr (u_email user))] None now
             in (Inr \<lparr>s_access_token = access_token, s_refresh_token = refresh_token,
                       s_token_type = ''bearer''\<rparr>,
                 repository_users_update_token user (Some refresh_token) d)))"

definition routes_auth_refresh_token ::
  "string \<Rightarrow> token \<Rightarrow> int \<Rightarrow> db \<Rightarrow> (exn + TokenSchema) \<times> db" where
  "routes_auth_refresh_token sk token now d =
     (case decode_refresh_token sk token now of
        Inl e \<Rightarrow> (Inl e, d)
      | Inr email \<Rightarrow>
          (case repository_users_get_user_by_email email d of
             None \<Rightarrow> (Inl (AttributeError ''refresh_token''), d)
           | Some user \<Rightarrow>
               if u_refresh_token user \<noteq> Some token then
                 (Inl (HTTPException 401 (Message INVALID_REFRESH_TOKEN)),
                  repository_users_update_token user None d)
               else
                 (let access_token = create_access_token sk [(''sub'', email)] None now;
                      refresh_token = create_refresh_token sk [(''sub'', email)] None now
                  in (Inr \<lparr>s_access_token = access_token, s_refresh_token = refresh_token,
                            s_token_type = ''bearer''\<rparr>,
                      repository_users_update_token user (Some refresh_token) d))))"

definition routes_auth_confirmed_email ::
  "string \<Rightarrow> token \<Rightarrow> int \<Rightarrow> db \<Rightarrow> (exn + string) \<times> db" where
  "routes_auth_confirmed_email sk token now d =
     (case get_email_from_token sk token now of
        Inl e \<Rightarrow> (Inl e, d)
      | Inr email \<Rightarrow>
          (case repository_users_get_user_by_email email d of
             None \<Rightarrow> (Inl (HTTPException 400 (Message USER_NOT_FOUND)), d)
           | Some user \<Rightarrow>
               if u_confirmed user then (Inr ''Verification has already been passed'', d)
               else
                 (case repository_users_confirmed_email email d of
                    (Inl e, d) \<Rightarrow> (Inl e, d)
                  | (Inr _, d) \<Rightarrow> (Inr ''Verification successful'', d))))"

section \<open>\<open>src/repository/contacts.py\<close>\<close>

text \<open>
  \<open>ilike s q\<close> is the database's \<open>s ILIKE '%q%'\<close>. The filter is part of the
  \<open>WHERE\<close> clause, so it applies before \<open>OFFSET\<close> and \<open>LIMIT\<close>; an empty or absent
  query adds no filter.
\<close>

definition query_filter ::
  "(string \<Rightarrow> string \<Rightarrow> bool) \<Rightarrow> string option \<Rightarrow> Contact list \<Rightarrow> Contact list" where
  "query_filter ilike query rows = (case query of
       None \<Rightarrow> rows
     | Some q \<Rightarrow>
         if q = [] then rows
         else filter (\<lambda>c. ilike (c_name c) q \<or> ilike (c_lastname c) q \<or> ilike (c_email c) q)
                rows)"

definition repository_contacts_get_contacts ::
  "(string \<Rightarrow> string \<Rightarrow> bool) \<Rightarrow> nat \<Rightarrow> nat \<Rightarrow> string option \<Rightarrow> db \<Rightarrow> User \<Rightarrow> Contact list" where
  "repository_contacts_get_contacts ilike limit offset query d user =
     take limit (drop offset
       (query_filter ilike query (filter (\<lambda>c. c_user_id c = u_id user) (contacts d))))"

definition repository_contacts_get_all_contacts ::
  "(string \<Rightarrow> string \<Rightarrow> bool) \<Rightarrow> nat \<Rightarrow> nat \<Rightarrow> string option \<Rightarrow> db \<Rightarrow> Contact list" where
  "repository_contacts_get_all_contacts ilike limit offset query d =
     take limit (drop offset (query_filter ilike query (contacts d)))"

definition repository_contacts_get_contact :: "int \<Rightarrow> db \<Rightarrow> User \<Rightarrow> Contact option" where
  "repository_contacts_get_contact contact_id d user =
     List.find (\<lambda>c. c_id c = contact_id \<and> c_user_id c = u_id user) (contacts d)"

section \<open>\<open>src/routes/contacts.py\<close>\<close>

definition access_to_route_all :: "User \<Rightarrow> exn + unit" where
  "access_to_route_all = RoleAccess_call [admin, moderator]"

text \<open>
  \<open>GET /contacts/all\<close>. The framework first resolves the dependencies (the current user,
  then the role gate of the decorator, which gets the same user), then validates the
  query parameters, then calls the function.
\<close>

definition routes_contacts_get_all_contacts ::
  "string \<Rightarrow> (string \<Rightarrow> string \<Rightarrow> bool) \<Rightarrow> token \<Rightarrow> int \<Rightarrow> int \<Rightarrow> string option \<Rightarrow> int
     \<Rightarrow> cache \<Rightarrow> db \<Rightarrow> (exn + Contact list) \<times> cache" where
  "routes_contacts_get_all_contacts sk ilike token limit offset query now c d =
     (case get_current_user sk token now c d of
        (Inl e, c) \<Rightarrow> (Inl e, c)
      | (Inr user, c) \<Rightarrow>
          (case access_to_route_all user of
             Inl e \<Rightarrow> (Inl e, c)
           | Inr _ \<Rightarrow>
               if limit < 10 \<or> 500 < limit \<or> offset < 0 then (Inl RequestValidationError, c)
               else (Inr (repository_contacts_get_all_contacts ilike (nat limit) (nat offset)
                            query d), c)))"

text \<open>\<open>GET /contacts/{contact_id}\<close>, for the user the authentication gate resolved.\<close>

definition routes_contacts_get_contact :: "int \<Rightarrow> db \<Rightarrow> User \<Rightarrow> exn + Contact" where
  "routes_contacts_get_contact contact_id d user =
     (if contact_id < 1 then Inl RequestValidationError
      else case repository_contacts_get_contact contact_id d user of
             None \<Rightarrow> Inl (HTTPException 404 (Text ''Contact not found''))
           | Some contact \<Rightarrow> Inr contact)"

section \<open>Example data\<close>

definition alice :: User where
  "alice = \<lparr>u_id = 1, u_username = ''alice'', u_email = ''alice@x.com'',
            u_password = ''secret1'', u_avatar = None, u_refresh_token = None,
            u_confirmed = True, u_role = regular\<rparr>"

definition bob :: User where
  "bob = \<lparr>u_id = 2, u_username = ''bob'', u_email = ''bob@x.com'',
          u_password = ''secret2'', u_avatar = None, u_refresh_token = None,
          u_confirmed = False, u_role = moderator\<rparr>"

definition ann :: Contact where
  "ann = \<lparr>c_id = 1, c_name = ''Ann'', c_lastname = ''Lee'', c_email = ''ann@y.com'',
          c_phone = ''1234567'', c_birthdate = ''01.01.1990'', c_others_info = ''none yet'',
          c_completed = False, c_user_id = 1\<rparr>"

definition ben :: Contact where
  "ben = \<lparr>c_id = 2, c_name = ''Ben'', c_lastname = ''Ray'', c_email = ''ben@y.com'',
          c_phone = ''7654321'', c_birthdate = ''02.02.1992'', c_others_info = ''none yet'',
          c_completed = True, c_user_id = 2\<rparr>"

definition demo_db :: db where
  "demo_db = \<lparr>users = [alice, bob], contacts = [ann, ben]\<rparr>"

section \<open>Lemmas about tokens, the user table and the cache\<close>

lemmas token_defs = create_access_token_def create_refresh_token_def create_email_token_def
  jwt_encode_def jwt_decode_def validate_claims_def and_then_def validate_iat_def
  validate_nbf_def validate_exp_def validate_aud_def validate_sub_def validate_jti_def
  validate_at_hash_def claim_int_def getitem_def except_JWTError_def
  credentials_exception_def

lemma find_map_update:
  assumes "List.find P xs = Some x" and "\<And>y. P (f y) = P y"
  shows "List.find P (map (\<lambda>y. if k y = k x then f y else y) xs) = Some (f x)"
  using assms by (induction xs) (auto split: if_splits)

lemma get_user_by_email_commit:
  assumes "repository_users_get_user_by_email email d = Some user"
    and "\<And>row. u_email (f row) = u_email row"
  shows "repository_users_get_user_by_email email (commit_user user f d) = Some (f user)"
  using assms
  by (simp add: repository_users_get_user_by_email_def commit_user_def find_map_update)



lemma confirmed_kept_commit:
  assumes "\<And>row. u_confirmed row \<Longrightarrow> u_confirmed (f row)"
  shows "list_all2 (\<lambda>a b. u_confirmed a \<longrightarrow> u_confirmed b) (users d) (users (commit_user user f d))"
  using assms by (simp add: commit_user_def list_all2_map2 list.rel_refl_strong)

lemma confirmed_kept_refl:
  "list_all2 (\<lambda>a b. u_confirmed a \<longrightarrow> u_confirmed b) (users d) (users d)"
  by (simp add: list.rel_refl_strong)

lemma confirmed_email_result:
  assumes "get_email_from_token sk token t = Inr email"
    and "repository_users_get_user_by_email email d = Some user"
  shows "routes_auth_confirmed_email sk token t d =
     (if u_confirmed user then (Inr ''Verification has already been passed'', d)
      else (Inr ''Verification successful'',
            commit_user user (\<lambda>row. row\<lparr>u_confirmed := True\<rparr>) d))"
  using assms
  by (simp add: routes_auth_confirmed_email_def repository_users_confirmed_email_def)

lemma confirmed_email_confirms:
  assumes tok: "get_email_from_token sk token t = Inr email"
    and usr: "repository_users_get_user_by_email email d = Some user"
  shows "(\<exists>msg. fst (routes_auth_confirmed_email sk token t d) = Inr msg)
       \<and> repository_users_get_user_by_email email (snd (routes_auth_confirmed_email sk token t d))
           = Some (user\<lparr>u_confirmed := True\<rparr>)"
proof (cases "u_confirmed user")
  case True
  then have "user\<lparr>u_confirmed := True\<rparr> = user" by simp
  with True tok usr show ?thesis
    by (simp add: confirmed_email_result)
next
  case False
  with tok usr show ?thesis
    by (simp add: confirmed_email_result get_user_by_email_commit)
qed

lemma confirmed_email_kept:
  "list_all2 (\<lambda>a b. u_confirmed a \<longrightarrow> u_confirmed b) (users d)
     (users (snd (routes_auth_confirmed_email sk token t d)))"
  by (auto simp: routes_auth_confirmed_email_def repository_users_confirmed_email_def
        confirmed_kept_refl confirmed_kept_commit split: sum.splits option.splits)

lemma email_token_subject:
  "t \<le> now + 86400 \<Longrightarrow>
   get_email_from_token sk (create_email_token sk [(''sub'', JStr e)] now) t = Inr (JStr e)"
  by (simp add: get_email_from_token_def token_defs)

lemma cache_get_after_store:
  "cache_get (cache_expire (cache_set c k v) k s now) k' t
     = (if k' = k then (if t \<le> now + s then Some v else None) else cache_get c k' t)"
  by (simp add: cache_get_def cache_set_def cache_expire_def)

lemma get_current_user_hit:
  "get_current_user_email sk token now = Inr email \<Longrightarrow>
   cache_get c (py_str email) now = Some user \<Longrightarrow>
   get_current_user sk token now c d = (Inr user, c)"
  by (simp add: get_current_user_def)

lemma get_current_user_miss:
  "get_current_user_email sk token now = Inr email \<Longrightarrow>
   cache_get c (py_str email) now = None \<Longrightarrow>
   get_current_user sk token now c d =
     (case repository_users_get_user_by_email email d of
        None \<Rightarrow> (Inl credentials_exception, c)
      | Some user \<Rightarrow>
          (Inr user, cache_expire (cache_set c (py_str email) user) (py_str email) 300 now))"
  by (simp add: get_current_user_def Let_def)

lemma login_kept:
  "list_all2 (\<lambda>a b. u_confirmed a \<longrightarrow> u_confirmed b) (users d)
     (users (snd (routes_auth_login sk pwd_verify e pw t d)))"
  by (simp add: routes_auth_login_def repository_users_update_token_def Let_def
        confirmed_kept_refl confirmed_kept_commit split: option.splits)

lemma refresh_token_kept:
  "list_all2 (\<lambda>a b. u_confirmed a \<longrightarrow> u_confirmed b) (users d)
     (users (snd (routes_auth_refresh_token sk token t d)))"
  by (simp add: routes_auth_refresh_token_def repository_users_update_token_def Let_def
        confirmed_kept_refl confirmed_kept_commit split: sum.splits option.splits)

lemma signup_kept:
  "list_all2 (\<lambda>a b. u_confirmed a \<longrightarrow> u_confirmed b) (users d)
     (take (length (users d)) (users (fst (snd (routes_auth_signup pwd_hash gravatar body d)))))"
  by (simp add: routes_auth_signup_def repository_users_create_user_def Let_def
        confirmed_kept_refl split: option.splits)

section \<open>The token service\<close>

text \<open>
  C1 (fails on the code). The refresh verifier should return the subject of a token whose
  scope tag is the refresh tag and reject any other scope with the wrong-scope error.
  \<open>decode_refresh_token\<close> reads the key \<open>score\<close>, which no issued token carries: for
  a refresh token and for an access token alike it ends in an uncaught \<open>KeyError\<close>
  while the token is unexpired, and in the generic credentials error afterwards.
\<close>

theorem refresh_verifier_on_issued_tokens:
  "decode_refresh_token sk (create_refresh_token sk [(''sub'', JStr u)] None now) t
     = Inl (if t \<le> now + 604800 then KeyError ''score''
            else HTTPException 401 (Text ''Could not validate credentials''))
   \<and> decode_refresh_token sk (create_access_token sk [(''sub'', JStr u)] None now) t
     = Inl (if t \<le> now + 900 then KeyError ''score''
            else HTTPException 401 (Text ''Could not validate credentials''))"
  by (simp add: decode_refresh_token_def token_defs)

text \<open>
  C8. An access token issued for a subject \<open>u\<close> at time \<open>now\<close> and verified as an
  access token at any time \<open>t\<close> up to its expiry, 15 minutes later, gives back \<open>u\<close>.
\<close>

theorem access_token_round_trip:
  "t \<le> now + 900 \<Longrightarrow>
   get_current_user_email sk (create_access_token sk [(''sub'', JStr u)] None now) t
     = Inr (JStr u)"
  by (simp add: get_current_user_email_def token_defs)

theorem access_token_round_trip_witness:
  "(100::int) \<le> 0 + 900 \<and>
   get_current_user_email ''k''
     (create_access_token ''k'' [(''sub'', JStr ''alice@x.com'')] None 0) 100
     = Inr (JStr ''alice@x.com'')"
  using access_token_round_trip [of 100 0 "''k''" "''alice@x.com''"] by simp

section \<open>The role gate\<close>

text \<open>
  C7. The role gate of a route with allow-set \<open>S\<close> lets a resolved identity pass exactly
  when its role is in \<open>S\<close>, and raises 403 \<open>FORBIDDEN\<close> exactly when it is not. The
  allow-set is an argument of the constructor, fixed when the route is declared: for the
  all-contacts route it is admin and moderator.
\<close>

theorem role_gate:
  "(RoleAccess_call S user = Inr ()) = (u_role user \<in> set S)
   \<and> (RoleAccess_call S user = Inl (HTTPException 403 (Text ''FORBIDDEN'')))
       = (u_role user \<notin> set S)
   \<and> access_to_route_all = RoleAccess_call [admin, moderator]"
  by (simp add: RoleAccess_call_def access_to_route_all_def)

theorem role_gate_witness:
  "RoleAccess_call [admin, moderator] bob = Inr ()
   \<and> RoleAccess_call [admin, moderator] alice = Inl (HTTPException 403 (Text ''FORBIDDEN''))"
proof -
  have "u_role bob \<in> set [admin, moderator]" "u_role alice \<notin> set [admin, moderator]"
    by (simp_all add: alice_def bob_def)
  with role_gate [of "[admin, moderator]" bob] role_gate [of "[admin, moderator]" alice]
  show ?thesis by blast
qed

section \<open>Signup, login and refresh\<close>

text \<open>
  C2 (fails on the code). A signup with an email that already has a user should fail
  with 409 Conflict. The route raises that exception inside its own \<open>try\<close> block, whose
  handler catches every exception and raises 400 with the text of the caught one. No row
  is added and no mail is queued.
\<close>

theorem signup_duplicate_email:
  "routes_auth_signup pwd_hash gravatar
     \<lparr>s_username = ''alice2'', s_email = ''alice@x.com'', s_password = ''secret9''\<rparr> demo_db
   = (Inl (HTTPException 400 (Str (HTTPException 409 (Message ACCOUNT_EXIST)))), demo_db, [])"
  by (simp add: routes_auth_signup_def repository_users_get_user_by_email_def demo_db_def
        alice_def)

text \<open>
  C3 (fails on the code). A refresh should rotate the persisted refresh token on a match
  and clear it, with the invalid-refresh-token error, on a mismatch. The route starts with
  \<open>decode_refresh_token\<close>, so for every refresh token the service issues, whatever
  the session holds, it ends in the \<open>KeyError\<close> (or, once expired, the credentials
  error) and leaves the session as it was: nothing is rotated and nothing is cleared.
\<close>

theorem refresh_never_rotates:
  "routes_auth_refresh_token sk (create_refresh_token sk [(''sub'', JStr u)] None now) t d
     = (Inl (if t \<le> now + 604800 then KeyError ''score''
             else HTTPException 401 (Text ''Could not validate credentials'')), d)"
  by (simp add: routes_auth_refresh_token_def decode_refresh_token_def token_defs)



section \<open>The authentication gate\<close>

text \<open>
  C5. For a token that verifies as an access token with subject \<open>email\<close>: if the cache
  holds a snapshot under that email, the gate returns it and leaves the cache alone,
  whatever the session holds; on a miss it looks the email up in the session, fails with
  the credentials error when there is no such user, and otherwise returns the user and
  stores it in the cache, where it is found up to and at the deadline 300 seconds later
  and no longer once the clock is past it. A later request up to the deadline is answered
  from the cache for any session; one after it asks the session again.
\<close>

theorem get_current_user_cache_first:
  assumes tok: "get_current_user_email sk token now = Inr email"
  shows "(\<forall>user. cache_get c (py_str email) now = Some user \<longrightarrow>
            (\<forall>d. get_current_user sk token now c d = (Inr user, c)))
       \<and> (cache_get c (py_str email) now = None
            \<and> repository_users_get_user_by_email email d = None \<longrightarrow>
            get_current_user sk token now c d = (Inl credentials_exception, c))
       \<and> (\<forall>user. cache_get c (py_str email) now = None
            \<and> repository_users_get_user_by_email email d = Some user \<longrightarrow>
            fst (get_current_user sk token now c d) = Inr user
          \<and> (\<forall>t. cache_get (snd (get_current_user sk token now c d)) (py_str email) t
                  = (if t \<le> now + 300 then Some user else None))
          \<and> (\<forall>t d'. t \<le> now + 300 \<and> get_current_user_email sk token t = Inr email \<longrightarrow>
                get_current_user sk token t (snd (get_current_user sk token now c d)) d'
                  = (Inr user, snd (get_current_user sk token now c d)))
          \<and> (\<forall>t d'. now + 300 < t \<and> get_current_user_email sk token t = Inr email
                \<and> repository_users_get_user_by_email email d' = None \<longrightarrow>
                fst (get_current_user sk token t (snd (get_current_user sk token now c d)) d')
                  = Inl credentials_exception))"
proof (intro conjI allI impI)
  fix user d
  assume "cache_get c (py_str email) now = Some user"
  with tok show "get_current_user sk token now c d = (Inr user, c)"
    by (rule get_current_user_hit)
next
  assume "cache_get c (py_str email) now = None
            \<and> repository_users_get_user_by_email email d = None"
  with tok show "get_current_user sk token now c d = (Inl credentials_exception, c)"
    by (simp add: get_current_user_miss)
next
  fix user
  assume miss: "cache_get c (py_str email) now = None
            \<and> repository_users_get_user_by_email email d = Some user"
  define c' where "c' = cache_expire (cache_set c (py_str email) user) (py_str email) 300 now"
  from tok miss have r: "get_current_user sk token now c d = (Inr user, c')"
    by (simp add: get_current_user_miss c'_def)
  have look: "cache_get c' (py_str email) t = (if t \<le> now + 300 then Some user else None)" for t
    by (simp add: c'_def cache_get_after_store)
  show "fst (get_current_user sk token now c d) = Inr user"
    by (simp add: r)
  show "cache_get (snd (get_current_user sk token now c d)) (py_str email) t
          = (if t \<le> now + 300 then Some user else None)" for t
    by (simp add: r look)
  show "get_current_user sk token t (snd (get_current_user sk token now c d)) d'
          = (Inr user, snd (get_current_user sk token now c d))"
    if "t \<le> now + 300 \<and> get_current_user_email sk token t = Inr email" for t d'
    using that by (simp add: r get_current_user_hit look)
  show "fst (get_current_user sk token t (snd (get_current_user sk token now c d)) d')
          = Inl credentials_exception"
    if "now + 300 < t \<and> get_current_user_email sk token t = Inr email
          \<and> repository_users_get_user_by_email email d' = None" for t d'
    using that by (simp add: r get_current_user_miss look)
qed

theorem get_current_user_cache_first_witness:
  "get_current_user ''k'' (create_access_token ''k'' [(''sub'', JStr ''alice@x.com'')] None 0) 10
     [''alice@x.com'' \<mapsto> (alice, Some 100)] \<lparr>users = [], contacts = []\<rparr>
     = (Inr alice, [''alice@x.com'' \<mapsto> (alice, Some 100)])
   \<and> get_current_user ''k'' (create_access_token ''k'' [(''sub'', JStr ''carol@x.com'')] None 0) 10
       Map.empty demo_db
     = (Inl credentials_exception, Map.empty)
   \<and> fst (get_current_user ''k''
            (create_access_token ''k'' [(''sub'', JStr ''alice@x.com'')] None 0) 10
            Map.empty demo_db) = Inr alice
   \<and> cache_get (snd (get_current_user ''k''
            (create_access_token ''k'' [(''sub'', JStr ''alice@x.com'')] None 0) 10
            Map.empty demo_db)) ''alice@x.com'' 310 = Some alice
   \<and> cache_get (snd (get_current_user ''k''
            (create_access_token ''k'' [(''sub'', JStr ''alice@x.com'')] None 0) 10
            Map.empty demo_db)) ''alice@x.com'' 311 = None
   \<and> get_current_user ''k''
       (create_access_token ''k'' [(''sub'', JStr ''alice@x.com'')] None 0) 310
       (snd (get_current_user ''k''
            (create_access_token ''k'' [(''sub'', JStr ''alice@x.com'')] None 0) 10
            Map.empty demo_db)) \<lparr>users = [], contacts = []\<rparr>
     = (Inr alice, snd (get_current_user ''k''
            (create_access_token ''k'' [(''sub'', JStr ''alice@x.com'')] None 0) 10
            Map.empty demo_db))
   \<and> fst (get_current_user ''k''
       (create_access_token ''k'' [(''sub'', JStr ''alice@x.com'')] None 0) 311
       (snd (get_current_user ''k''
            (create_access_token ''k'' [(''sub'', JStr ''alice@x.com'')] None 0) 10
            Map.empty demo_db)) \<lparr>users = [], contacts = []\<rparr>)
     = Inl credentials_exception"
proof -
  let ?a = "create_access_token ''k'' [(''sub'', JStr ''alice@x.com'')] None 0"
  let ?c = "create_access_token ''k'' [(''sub'', JStr ''carol@x.com'')] None 0"
  have ta: "get_current_user_email ''k'' ?a 10 = Inr (JStr ''alice@x.com'')"
    and tc: "get_current_user_email ''k'' ?c 10 = Inr (JStr ''carol@x.com'')"
    by (simp_all add: get_current_user_email_def token_defs)
  have hit: "cache_get [''alice@x.com'' \<mapsto> (alice, Some 100)] (py_str (JStr ''alice@x.com'')) 10
               = Some alice"
    by (simp add: cache_get_def)
  have miss: "cache_get Map.empty (py_str (JStr ''alice@x.com'')) 10 = None"
    "cache_get Map.empty (py_str (JStr ''carol@x.com'')) 10 = None"
    by (simp_all add: cache_get_def)
  have rows: "repository_users_get_user_by_email (JStr ''carol@x.com'') demo_db = None"
    "repository_users_get_user_by_email (JStr ''alice@x.com'') demo_db = Some alice"
    by (simp_all add: repository_users_get_user_by_email_def demo_db_def alice_def bob_def)
  from hit get_current_user_cache_first [OF ta, of "[''alice@x.com'' \<mapsto> (alice, Some 100)]"]
  have 1: "get_current_user ''k'' ?a 10
     [''alice@x.com'' \<mapsto> (alice, Some 100)] \<lparr>users = [], contacts = []\<rparr>
     = (Inr alice, [''alice@x.com'' \<mapsto> (alice, Some 100)])"
    by blast
  from miss rows get_current_user_cache_first [OF tc, of Map.empty demo_db]
  have 2: "get_current_user ''k'' ?c 10 Map.empty demo_db = (Inl credentials_exception, Map.empty)"
    by blast
  note stored = get_current_user_cache_first [OF ta, of Map.empty demo_db]
  from miss rows stored
  have 3: "fst (get_current_user ''k'' ?a 10 Map.empty demo_db) = Inr alice
    \<and> (\<forall>t. cache_get (snd (get_current_user ''k'' ?a 10 Map.empty demo_db))
             (py_str (JStr ''alice@x.com'')) t = (if t \<le> 10 + 300 then Some alice else None))"
    by blast
  have later: "get_current_user_email ''k'' ?a 310 = Inr (JStr ''alice@x.com'')"
    "get_current_user_email ''k'' ?a 311 = Inr (JStr ''alice@x.com'')"
    by (simp_all add: get_current_user_email_def token_defs)
  have gone: "repository_users_get_user_by_email (JStr ''alice@x.com'')
                \<lparr>users = [], contacts = []\<rparr> = None"
    by (simp add: repository_users_get_user_by_email_def)
  have "(310::int) \<le> 10 + 300"
    by simp
  with miss rows later stored
  have 4: "get_current_user ''k'' ?a 310 (snd (get_current_user ''k'' ?a 10 Map.empty demo_db))
             \<lparr>users = [], contacts = []\<rparr>
     = (Inr alice, snd (get_current_user ''k'' ?a 10 Map.empty demo_db))"
    by blast
  have "(10::int) + 300 < 311"
    by simp
  with miss rows later gone stored
  have 5: "fst (get_current_user ''k'' ?a 311
                 (snd (get_current_user ''k'' ?a 10 Map.empty demo_db))
                 \<lparr>users = [], contacts = []\<rparr>) = Inl credentials_exception"
    by blast
  from 1 2 3 4 5 show ?thesis by simp
qed

section \<open>Contacts\<close>

text \<open>
  C6. The single-contact route, called for a user, only ever returns a contact of the
  table that has the requested id and belongs to that user; when every contact with the
  requested id belongs to someone else it answers 404 \<open>Contact not found\<close>. The
  all-contacts route returns a listing only when the authentication gate resolved a
  caller whose role is moderator or admin.
\<close>

theorem contacts_ownership:
  "(routes_contacts_get_contact contact_id d user = Inr contact \<longrightarrow>
      contact \<in> set (contacts d) \<and> c_id contact = contact_id
      \<and> c_user_id contact = u_id user)
   \<and> (1 \<le> contact_id
        \<and> (\<forall>other \<in> set (contacts d). c_id other = contact_id \<longrightarrow> c_user_id other \<noteq> u_id user)
      \<longrightarrow> routes_contacts_get_contact contact_id d user
            = Inl (HTTPException 404 (Text ''Contact not found'')))
   \<and> (fst (routes_contacts_get_all_contacts sk ilike token limit offset query now c d) = Inr rows
      \<longrightarrow> (\<exists>caller. fst (get_current_user sk token now c d) = Inr caller
              \<and> (u_role caller = moderator \<or> u_role caller = admin)))"
proof -
  have owned: "contact \<in> set (contacts d) \<and> c_id contact = contact_id
      \<and> c_user_id contact = u_id user"
    if "routes_contacts_get_contact contact_id d user = Inr contact"
  proof -
    from that
    have "List.find (\<lambda>c. c_id c = contact_id \<and> c_user_id c = u_id user) (contacts d)
               = Some contact"
      by (auto simp: routes_contacts_get_contact_def repository_contacts_get_contact_def
            split: if_splits option.splits)
    then show ?thesis
      by (auto simp: find_Some_iff)
  qed
  have not_found: "routes_contacts_get_contact contact_id d user
            = Inl (HTTPException 404 (Text ''Contact not found''))"
    if h: "1 \<le> contact_id
        \<and> (\<forall>other \<in> set (contacts d). c_id other = contact_id \<longrightarrow> c_user_id other \<noteq> u_id user)"
  proof -
    from h
    have "List.find (\<lambda>c. c_id c = contact_id \<and> c_user_id c = u_id user) (contacts d) = None"
      by (auto simp: find_None_iff)
    with h show ?thesis
      by (simp add: routes_contacts_get_contact_def repository_contacts_get_contact_def)
  qed
  have gate: "\<exists>caller. fst (get_current_user sk token now c d) = Inr caller
              \<and> (u_role caller = moderator \<or> u_role caller = admin)"
    if "fst (routes_contacts_get_all_contacts sk ilike token limit offset query now c d) = Inr rows"
    using that
    by (auto simp: routes_contacts_get_all_contacts_def access_to_route_all_def
          RoleAccess_call_def split: prod.splits sum.splits if_splits)
  from owned not_found gate show ?thesis
    by blast
qed

theorem contacts_ownership_witness:
  "routes_contacts_get_contact 1 demo_db alice = Inr ann
   \<and> c_user_id ann = u_id alice
   \<and> routes_contacts_get_contact 2 demo_db alice
       = Inl (HTTPException 404 (Text ''Contact not found''))
   \<and> fst (routes_contacts_get_all_contacts ''k'' (\<lambda>s q. True)
            (create_access_token ''k'' [(''sub'', JStr ''bob@x.com'')] None 0)
            10 0 None 0 Map.empty demo_db) = Inr [ann, ben]
   \<and> (\<exists>caller. fst (get_current_user ''k''
            (create_access_token ''k'' [(''sub'', JStr ''bob@x.com'')] None 0)
            0 Map.empty demo_db) = Inr caller
        \<and> (u_role caller = moderator \<or> u_role caller = admin))"
proof -
  let ?b = "create_access_token ''k'' [(''sub'', JStr ''bob@x.com'')] None 0"
  have 1: "routes_contacts_get_contact 1 demo_db alice = Inr ann"
    by (simp add: routes_contacts_get_contact_def repository_contacts_get_contact_def
          demo_db_def alice_def ann_def)
  have 2: "(1::int) \<le> 2
        \<and> (\<forall>other \<in> set (contacts demo_db). c_id other = 2 \<longrightarrow> c_user_id other \<noteq> u_id alice)"
    by (simp add: demo_db_def alice_def ann_def ben_def)
  have 3: "fst (routes_contacts_get_all_contacts ''k'' (\<lambda>s q. True) ?b 10 0 None 0
             Map.empty demo_db) = Inr [ann, ben]"
    by (simp add: routes_contacts_get_all_contacts_def get_current_user_def
          get_current_user_email_def token_defs cache_get_def Let_def
          repository_users_get_user_by_email_def access_to_route_all_def RoleAccess_call_def
          repository_contacts_get_all_contacts_def query_filter_def
          demo_db_def alice_def bob_def)
  from 1 2 3
    contacts_ownership [of 1 demo_db alice ann]
    contacts_ownership [of 2 demo_db alice]
    contacts_ownership [of _ _ _ _ "''k''" "\<lambda>s q. True" ?b 10 0 None 0 Map.empty "[ann, ben]"]
  show ?thesis by blast
qed

section \<open>Email confirmation\<close>

text \<open>
  C9. Redeeming an unexpired confirmation token for an existing, unconfirmed user answers
  \<open>Verification successful\<close> and leaves the user confirmed; redeeming it again answers
  \<open>Verification has already been passed\<close> and leaves the session as it is, as does
  redeeming a token of a user who is confirmed already. Whatever token is presented, and
  also in signup, login and refresh, no row that is confirmed before is unconfirmed after.
\<close>

theorem confirmation_once:
  "(t1 \<le> now + 86400 \<and> t2 \<le> now + 86400
      \<and> repository_users_get_user_by_email (JStr e) d = Some user \<longrightarrow>
      (\<not> u_confirmed user \<longrightarrow>
         fst (routes_auth_confirmed_email sk (create_email_token sk [(''sub'', JStr e)] now) t1 d)
           = Inr ''Verification successful''
       \<and> repository_users_get_user_by_email (JStr e)
           (snd (routes_auth_confirmed_email sk
                   (create_email_token sk [(''sub'', JStr e)] now) t1 d))
           = Some (user\<lparr>u_confirmed := True\<rparr>)
       \<and> routes_auth_confirmed_email sk (create_email_token sk [(''sub'', JStr e)] now) t2
           (snd (routes_auth_confirmed_email sk
                   (create_email_token sk [(''sub'', JStr e)] now) t1 d))
           = (Inr ''Verification has already been passed'',
              snd (routes_auth_confirmed_email sk
                     (create_email_token sk [(''sub'', JStr e)] now) t1 d)))
    \<and> (u_confirmed user \<longrightarrow>
         routes_auth_confirmed_email sk (create_email_token sk [(''sub'', JStr e)] now) t1 d
           = (Inr ''Verification has already been passed'', d)))
   \<and> list_all2 (\<lambda>before after. u_confirmed before \<longrightarrow> u_confirmed after) (users d')
       (users (snd (routes_auth_confirmed_email sk token' t' d')))
   \<and> list_all2 (\<lambda>before after. u_confirmed before \<longrightarrow> u_confirmed after) (users d')
       (users (snd (routes_auth_login sk pwd_verify e' pw' t' d')))
   \<and> list_all2 (\<lambda>before after. u_confirmed before \<longrightarrow> u_confirmed after) (users d')
       (users (snd (routes_auth_refresh_token sk token' t' d')))
   \<and> list_all2 (\<lambda>before after. u_confirmed before \<longrightarrow> u_confirmed after) (users d')
       (take (length (users d'))
          (users (fst (snd (routes_auth_signup pwd_hash gravatar body d')))))"
proof -
  let ?tok = "create_email_token sk [(''sub'', JStr e)] now"
  let ?d1 = "snd (routes_auth_confirmed_email sk ?tok t1 d)"
  have first: "fst (routes_auth_confirmed_email sk ?tok t1 d) = Inr ''Verification successful''
       \<and> repository_users_get_user_by_email (JStr e) ?d1 = Some (user\<lparr>u_confirmed := True\<rparr>)
       \<and> routes_auth_confirmed_email sk ?tok t2 ?d1
           = (Inr ''Verification has already been passed'', ?d1)"
    if h: "t1 \<le> now + 86400" "t2 \<le> now + 86400"
      "repository_users_get_user_by_email (JStr e) d = Some user" "\<not> u_confirmed user"
  proof -
    have r1: "routes_auth_confirmed_email sk ?tok t1 d =
        (Inr ''Verification successful'', commit_user user (\<lambda>row. row\<lparr>u_confirmed := True\<rparr>) d)"
      using h by (simp add: confirmed_email_result [OF email_token_subject])
    have u1: "repository_users_get_user_by_email (JStr e) ?d1 = Some (user\<lparr>u_confirmed := True\<rparr>)"
      using h by (simp add: r1 get_user_by_email_commit)
    have r2: "routes_auth_confirmed_email sk ?tok t2 ?d1
        = (Inr ''Verification has already been passed'', ?d1)"
      using h(2) u1 by (simp add: confirmed_email_result [OF email_token_subject])
    from r1 u1 r2 show ?thesis by simp
  qed
  have again: "routes_auth_confirmed_email sk ?tok t1 d
           = (Inr ''Verification has already been passed'', d)"
    if "t1 \<le> now + 86400" "repository_users_get_user_by_email (JStr e) d = Some user"
      "u_confirmed user"
    using that by (simp add: confirmed_email_result [OF email_token_subject])
  from first again confirmed_email_kept login_kept refresh_token_kept signup_kept
  show ?thesis
    by blast
qed

theorem confirmation_once_witness:
  "fst (routes_auth_confirmed_email ''k''
          (create_email_token ''k'' [(''sub'', JStr ''bob@x.com'')] 0) 5 demo_db)
     = Inr ''Verification successful''
   \<and> repository_users_get_user_by_email (JStr ''bob@x.com'')
       (snd (routes_auth_confirmed_email ''k''
               (create_email_token ''k'' [(''sub'', JStr ''bob@x.com'')] 0) 5 demo_db))
     = Some (bob\<lparr>u_confirmed := True\<rparr>)
   \<and> routes_auth_confirmed_email ''k''
       (create_email_token ''k'' [(''sub'', JStr ''bob@x.com'')] 0) 9
       (snd (routes_auth_confirmed_email ''k''
               (create_email_token ''k'' [(''sub'', JStr ''bob@x.com'')] 0) 5 demo_db))
     = (Inr ''Verification has already been passed'',
        snd (routes_auth_confirmed_email ''k''
               (create_email_token ''k'' [(''sub'', JStr ''bob@x.com'')] 0) 5 demo_db))
   \<and> routes_auth_confirmed_email ''k''
       (create_email_token ''k'' [(''sub'', JStr ''alice@x.com'')] 0) 5 demo_db
     = (Inr ''Verification has already been passed'', demo_db)
   \<and> u_confirmed (users demo_db ! 0)
   \<and> u_confirmed (users (snd (routes_auth_confirmed_email ''k''
               (create_email_token ''k'' [(''sub'', JStr ''bob@x.com'')] 0) 5 demo_db)) ! 0)"
proof -
  have rows: "repository_users_get_user_by_email (JStr ''bob@x.com'') demo_db = Some bob"
    "repository_users_get_user_by_email (JStr ''alice@x.com'') demo_db = Some alice"
    by (simp_all add: repository_users_get_user_by_email_def demo_db_def alice_def bob_def)
  have flags: "\<not> u_confirmed bob" "u_confirmed alice"
    by (simp_all add: alice_def bob_def)
  have times: "(5::int) \<le> 0 + 86400" "(9::int) \<le> 0 + 86400"
    by simp_all
  have first: "u_confirmed (users demo_db ! 0)" "0 < length (users demo_db)"
    by (simp_all add: demo_db_def alice_def)
  note bob_case = confirmation_once [of 5 0 9 "''bob@x.com''" demo_db bob "''k''" demo_db
      "create_email_token ''k'' [(''sub'', JStr ''bob@x.com'')] 0" 5]
  from bob_case
  have "list_all2 (\<lambda>before after. u_confirmed before \<longrightarrow> u_confirmed after) (users demo_db)
       (users (snd (routes_auth_confirmed_email ''k''
               (create_email_token ''k'' [(''sub'', JStr ''bob@x.com'')] 0) 5 demo_db)))"
    by blast
  with first
  have kept: "u_confirmed (users (snd (routes_auth_confirmed_email ''k''
               (create_email_token ''k'' [(''sub'', JStr ''bob@x.com'')] 0) 5 demo_db)) ! 0)"
    using list_all2_nthD by fastforce
  from rows flags times first kept bob_case
    confirmation_once [of 5 0 9 "''alice@x.com''" demo_db alice "''k''"]
  show ?thesis by blast
qed


section \<open>Confirmation with a token of another purpose\<close>

text \<open>
  C10 as it is stated does not hold for every signed, unexpired token with a subject: the
  decoder hands the token to the library, which validates the other registered claims
  too. A token signed with the service's key, unexpired and with a subject, that also
  carries an audience is refused with the credentials error, and the route confirms
  nobody.
\<close>

theorem confirmation_decoder_refuses_audience:
  "get_email_from_token ''k''
     (jwt_encode [(''sub'', JStr ''bob@x.com''), (''exp'', JNum 900), (''aud'', JStr ''contacts'')]
        ''k'') 5
     = Inl (HTTPException 401 (Text ''Could not validate credentials''))
   \<and> routes_auth_confirmed_email ''k''
       (jwt_encode [(''sub'', JStr ''bob@x.com''), (''exp'', JNum 900), (''aud'', JStr ''contacts'')]
          ''k'') 5 demo_db
     = (Inl (HTTPException 401 (Text ''Could not validate credentials'')), demo_db)"
  by (simp add: routes_auth_confirmed_email_def get_email_from_token_def token_defs)

text \<open>
  C10, amended. The decoder of the confirmation route returns the subject of every token
  that the library decodes (the signature verifies, the token is unexpired and its other
  registered claims pass the library's validation) and that has a subject; it reads no
  scope. So an unexpired access token or refresh token that the service issued for an
  existing user, presented to the confirmation route, is answered with a message and
  leaves that user confirmed.
\<close>

theorem confirmation_ignores_scope:
  "(jwt_decode token sk t = Inr payload \<and> map_of payload ''sub'' = Some email \<longrightarrow>
      get_email_from_token sk token t = Inr email)
   \<and> (t \<le> now + 900 \<and> repository_users_get_user_by_email (JStr e) d = Some user \<longrightarrow>
        (\<exists>msg. fst (routes_auth_confirmed_email sk
                   (create_access_token sk [(''sub'', JStr e)] None now) t d) = Inr msg)
      \<and> repository_users_get_user_by_email (JStr e)
          (snd (routes_auth_confirmed_email sk
                  (create_access_token sk [(''sub'', JStr e)] None now) t d))
          = Some (user\<lparr>u_confirmed := True\<rparr>))
   \<and> (t \<le> now + 604800 \<and> repository_users_get_user_by_email (JStr e) d = Some user \<longrightarrow>
        (\<exists>msg. fst (routes_auth_confirmed_email sk
                   (create_refresh_token sk [(''sub'', JStr e)] None now) t d) = Inr msg)
      \<and> repository_users_get_user_by_email (JStr e)
          (snd (routes_auth_confirmed_email sk
                  (create_refresh_token sk [(''sub'', JStr e)] None now) t d))
          = Some (user\<lparr>u_confirmed := True\<rparr>))"
proof -
  have any: "get_email_from_token sk token t = Inr email"
    if "jwt_decode token sk t = Inr payload \<and> map_of payload ''sub'' = Some email"
    using that by (simp add: get_email_from_token_def getitem_def except_JWTError_def)
  have acc: "get_email_from_token sk (create_access_token sk [(''sub'', JStr e)] None now) t
               = Inr (JStr e)" if "t \<le> now + 900"
    using that by (simp add: get_email_from_token_def token_defs)
  have ref: "get_email_from_token sk (create_refresh_token sk [(''sub'', JStr e)] None now) t
               = Inr (JStr e)" if "t \<le> now + 604800"
    using that by (simp add: get_email_from_token_def token_defs)
  from any confirmed_email_confirms [OF acc] confirmed_email_confirms [OF ref]
  show ?thesis by blast
qed


theorem confirmation_ignores_scope_witness:
  "get_email_from_token ''k''
     (create_access_token ''k'' [(''sub'', JStr ''bob@x.com'')] None 0) 5 = Inr (JStr ''bob@x.com'')
   \<and> (\<exists>msg. fst (routes_auth_confirmed_email ''k''
                 (create_access_token ''k'' [(''sub'', JStr ''bob@x.com'')] None 0) 5 demo_db)
              = Inr msg)
   \<and> repository_users_get_user_by_email (JStr ''bob@x.com'')
       (snd (routes_auth_confirmed_email ''k''
               (create_access_token ''k'' [(''sub'', JStr ''bob@x.com'')] None 0) 5 demo_db))
     = Some (bob\<lparr>u_confirmed := True\<rparr>)
   \<and> (\<exists>msg. fst (routes_auth_confirmed_email ''k''
                 (create_refresh_token ''k'' [(''sub'', JStr ''bob@x.com'')] None 0) 5 demo_db)
              = Inr msg)
   \<and> repository_users_get_user_by_email (JStr ''bob@x.com'')
       (snd (routes_auth_confirmed_email ''k''
               (create_refresh_token ''k'' [(''sub'', JStr ''bob@x.com'')] None 0) 5 demo_db))
     = Some (bob\<lparr>u_confirmed := True\<rparr>)"
proof -
  let ?a = "create_access_token ''k'' [(''sub'', JStr ''bob@x.com'')] None 0"
  have dec: "jwt_decode ?a ''k'' 5
      = Inr [(''sub'', JStr ''bob@x.com''), (''iat'', JNum 0), (''exp'', JNum 900),
             (''scope'', JStr ''access_token'')]
    \<and> map_of [(''sub'', JStr ''bob@x.com''), (''iat'', JNum 0), (''exp'', JNum 900),
             (''scope'', JStr ''access_token'')] ''sub'' = Some (JStr ''bob@x.com'')"
    by (simp add: token_defs)
  have row: "repository_users_get_user_by_email (JStr ''bob@x.com'') demo_db = Some bob"
    by (simp add: repository_users_get_user_by_email_def demo_db_def alice_def bob_def)
  have times: "(5::int) \<le> 0 + 900" "(5::int) \<le> 0 + 604800"
    by simp_all
  from dec row times
    confirmation_ignores_scope [of ?a "''k''" 5 _ "JStr ''bob@x.com''" 0 "''bob@x.com''"
      demo_db bob]
  show ?thesis by blast
qed

end
